theory Spec2Isabelle
  imports Complex_Main
begin

section \<open>Bounties of GOF2BountyBot: data model\<close>

text \<open>
  The development embeds \<^verbatim>\<open>bot/gameObjects/bounties/bounty.py\<close> and
  \<^verbatim>\<open>bot/gameObjects/bounties/bountyConfig.py\<close>. Python exceptions are values of
  \<open>pyerror\<close>; a method that mutates \<^verbatim>\<open>self\<close> returns the updated object.
\<close>

datatype pyerror = ValueError | IndexError | KeyError | AttributeError

text \<open>
  The class \<^verbatim>\<open>Criminal\<close> is not part of the embedded sources; a criminal is the
  record of the constructor arguments \<^verbatim>\<open>Bounty.__init__\<close> passes to it.
\<close>

record criminal =
  crimName :: string
  crimFaction :: string
  crimIcon :: string
  crimIsPlayer :: bool
  crimAliases :: "string list"
  crimWiki :: string

text \<open>
  Modelled from the spec: the class \<^verbatim>\<open>TimedTask\<close> (section 4.1, DeferredTask) is
  not part of the embedded sources. A task has an identity, a flag telling whether it has
  reached its terminal state, and the number of times its effect has run.
  \<^verbatim>\<open>forceExpire\<close> makes the task terminal at once and runs the effect iff asked to.
\<close>

record timedTask =
  ttId :: nat
  ttExpired :: bool
  ttEffectRuns :: nat

definition forceExpire :: "timedTask \<Rightarrow> bool \<Rightarrow> timedTask" where
  "forceExpire tt callExpiryFunc =
     tt\<lparr>ttExpired := True,
        ttEffectRuns := (if callExpiryFunc then ttEffectRuns tt + 1 else ttEffectRuns tt)\<rparr>"

text \<open>
  The attributes that \<^verbatim>\<open>Bounty\<close> and \<^verbatim>\<open>BountyConfig\<close> have in common.
  \<open>checked\<close> is the dictionary from system names to user ids, \<open>-1\<close> standing for
  an unchecked system. Time stamps are Python floats, read as the reals they denote.
\<close>

record bountyCore =
  faction :: string
  route :: "string list"
  answer :: string
  checked :: "string \<rightharpoonup> int"
  reward :: int
  issueTime :: real
  endTime :: real

record bounty = bountyCore +
  criminalObj :: criminal
  respawnTT :: "timedTask option"

section \<open>Checking systems\<close>

definition systemChecked :: "bounty \<Rightarrow> string \<Rightarrow> pyerror + bool" where
  "systemChecked b system =
     (case checked b system of
        None \<Rightarrow> Inl KeyError
      | Some u \<Rightarrow> Inr (u \<noteq> -1))"

definition check :: "bounty \<Rightarrow> string \<Rightarrow> int \<Rightarrow> pyerror + int \<times> bounty" where
  "check b system userID =
     (if system \<notin> set (route b) then Inr (0, b)
      else (case systemChecked b system of
              Inl e \<Rightarrow> Inl e
            | Inr True \<Rightarrow> Inr (1, b)
            | Inr False \<Rightarrow>
                (let b' = b\<lparr>checked := (checked b)(system \<mapsto> userID)\<rparr>
                 in if answer b = system then Inr (3, b') else Inr (2, b'))))"

text \<open>
  A sequence of \<^verbatim>\<open>check\<close> calls on one bounty. A call that raises leaves the
  object as it was (\<^verbatim>\<open>check\<close> raises before it assigns).
\<close>

fun checks :: "bounty \<Rightarrow> (string \<times> int) list \<Rightarrow> bounty" where
  "checks b [] = b"
| "checks b ((system, userID) # calls) =
     (case check b system userID of
        Inl e \<Rightarrow> checks b calls
      | Inr (r, b') \<Rightarrow> checks b' calls)"

section \<open>Reward distribution\<close>

text \<open>
  One value of the dictionary \<^verbatim>\<open>calcRewards\<close> returns:
  \<^verbatim>\<open>{"reward": ..., "checked": ..., "won": ...}\<close>.
\<close>

record userReward =
  rw_reward :: int
  rw_checked :: int
  rw_won :: bool

text \<open>
  Python's \<^verbatim>\<open>int(x)\<close> on a float truncates towards zero.
  \<^verbatim>\<open>int(self.reward / len(self.route))\<close> divides two integers into a float first;
  the quotient is read as the exact real quotient, which is what the float division
  yields as long as the reward is below \<open>2^53\<close>.
\<close>

definition py_int :: "real \<Rightarrow> int" where
  "py_int x = (if 0 \<le> x then \<lfloor>x\<rfloor> else \<lceil>x\<rceil>)"

definition share :: "bounty \<Rightarrow> int" where
  "share b = py_int (real_of_int (reward b) / real (length (route b)))"

text \<open>The first loop: count the checked systems and open an entry for every checker.\<close>

fun countChecked ::
  "bounty \<Rightarrow> string list \<Rightarrow> (int \<rightharpoonup> userReward) \<Rightarrow> int \<Rightarrow> pyerror + (int \<rightharpoonup> userReward) \<times> int"
where
  "countChecked b [] rewards checkedSystems = Inr (rewards, checkedSystems)"
| "countChecked b (system # rest) rewards checkedSystems =
     (case systemChecked b system of
        Inl e \<Rightarrow> Inl e
      | Inr False \<Rightarrow> countChecked b rest rewards checkedSystems
      | Inr True \<Rightarrow>
          (case checked b system of
             None \<Rightarrow> Inl KeyError
           | Some u \<Rightarrow>
               countChecked b rest
                 (if rewards u = None
                  then rewards(u \<mapsto> \<lparr>rw_reward = 0, rw_checked = 0, rw_won = False\<rparr>)
                  else rewards)
                 (checkedSystems + 1)))"

text \<open>The second loop: credit every checked system to its checker.\<close>

fun creditChecked ::
  "bounty \<Rightarrow> int \<Rightarrow> string list \<Rightarrow> (int \<rightharpoonup> userReward) \<Rightarrow> pyerror + (int \<rightharpoonup> userReward)"
where
  "creditChecked b uncheckedSystems [] rewards = Inr rewards"
| "creditChecked b uncheckedSystems (system # rest) rewards =
     (case systemChecked b system of
        Inl e \<Rightarrow> Inl e
      | Inr False \<Rightarrow> creditChecked b uncheckedSystems rest rewards
      | Inr True \<Rightarrow>
          (case checked b system of
             None \<Rightarrow> Inl KeyError
           | Some u \<Rightarrow>
               (case rewards u of
                  None \<Rightarrow> Inl KeyError
                | Some e \<Rightarrow>
                    (let e1 = e\<lparr>rw_checked := rw_checked e + 1\<rparr>;
                         e2 = (if answer b = system
                               then e1\<lparr>rw_reward := rw_reward e1 + share b * (uncheckedSystems + 1),
                                       rw_won := True\<rparr>
                               else e1\<lparr>rw_reward := rw_reward e1 + share b\<rparr>)
                     in creditChecked b uncheckedSystems rest (rewards(u \<mapsto> e2))))))"

definition calcRewards :: "bounty \<Rightarrow> pyerror + (int \<rightharpoonup> userReward)" where
  "calcRewards b =
     (case countChecked b (route b) Map.empty 0 of
        Inl e \<Rightarrow> Inl e
      | Inr (rewards, checkedSystems) \<Rightarrow>
          creditChecked b (int (length (route b)) - checkedSystems) (route b) rewards)"

section \<open>Escaping and respawning\<close>

definition isEscaped :: "bounty \<Rightarrow> bool" where
  "isEscaped b = (respawnTT b = None)"

definition escape :: "bounty \<Rightarrow> timedTask \<Rightarrow> pyerror + bounty" where
  "escape b tt = (if isEscaped b then Inl ValueError else Inr (b\<lparr>respawnTT := Some tt\<rparr>))"

text \<open>
  \<^verbatim>\<open>cancelRespawn\<close> and \<^verbatim>\<open>forceRespawn\<close> call a method of the attached task;
  on \<^verbatim>\<open>None\<close> that call raises \<^verbatim>\<open>AttributeError\<close>. On success they return the
  bounty and the task as \<^verbatim>\<open>forceExpire\<close> left it.
\<close>

definition cancelRespawn :: "bounty \<Rightarrow> pyerror + bounty \<times> timedTask" where
  "cancelRespawn b =
     (if \<not> isEscaped b then Inl ValueError
      else (case respawnTT b of
              None \<Rightarrow> Inl AttributeError
            | Some tt \<Rightarrow> Inr (b\<lparr>respawnTT := None\<rparr>, forceExpire tt False)))"

definition forceRespawn :: "bounty \<Rightarrow> pyerror + bounty \<times> timedTask" where
  "forceRespawn b =
     (if \<not> isEscaped b then Inl ValueError
      else (case respawnTT b of
              None \<Rightarrow> Inl AttributeError
            | Some tt \<Rightarrow> Inr (b\<lparr>respawnTT := None\<rparr>, forceExpire tt True)))"

text \<open>
  The life-cycle operations as a transition system: a call that raises leaves the bounty
  unchanged.
\<close>

datatype lifecycleOp = Escape timedTask | CancelRespawn | ForceRespawn | Check string int

fun applyOp :: "bounty \<Rightarrow> lifecycleOp \<Rightarrow> bounty" where
  "applyOp b (Escape tt) = (case escape b tt of Inl e \<Rightarrow> b | Inr b' \<Rightarrow> b')"
| "applyOp b CancelRespawn = (case cancelRespawn b of Inl e \<Rightarrow> b | Inr (b', tt) \<Rightarrow> b')"
| "applyOp b ForceRespawn = (case forceRespawn b of Inl e \<Rightarrow> b | Inr (b', tt) \<Rightarrow> b')"
| "applyOp b (Check system userID) =
     (case check b system userID of Inl e \<Rightarrow> b | Inr (r, b') \<Rightarrow> b')"

definition applyOps :: "bounty \<Rightarrow> lifecycleOp list \<Rightarrow> bounty" where
  "applyOps b ops = foldl applyOp b ops"

section \<open>Bounty configurations\<close>

subsection \<open>Strings\<close>

text \<open>
  \<^verbatim>\<open>str.lower\<close> and \<^verbatim>\<open>str.title\<close> on ASCII names: \<^verbatim>\<open>title\<close> puts a letter
  in upper case when the character before it is not a letter, and in lower case when it
  is.
\<close>

definition isLower :: "char \<Rightarrow> bool" where
  "isLower c = (97 \<le> (of_char c :: nat) \<and> (of_char c :: nat) \<le> 122)"

definition isUpper :: "char \<Rightarrow> bool" where
  "isUpper c = (65 \<le> (of_char c :: nat) \<and> (of_char c :: nat) \<le> 90)"

definition toUpper :: "char \<Rightarrow> char" where
  "toUpper c = (if isLower c then char_of ((of_char c :: nat) - 32) else c)"

definition toLower :: "char \<Rightarrow> char" where
  "toLower c = (if isUpper c then char_of ((of_char c :: nat) + 32) else c)"

definition lower :: "string \<Rightarrow> string" where
  "lower s = map toLower s"

fun titleFrom :: "bool \<Rightarrow> string \<Rightarrow> string" where
  "titleFrom previousIsCased [] = []"
| "titleFrom previousIsCased (c # cs) =
     (if previousIsCased then toLower c else toUpper c) # titleFrom (isLower c \<or> isUpper c) cs"

definition title :: "string \<Rightarrow> string" where
  "title s = titleFrom False s"

subsection \<open>The configuration object\<close>

text \<open>
  \<^verbatim>\<open>BountyConfig\<close> has the attributes of \<open>bountyCore\<close> and the ones below
  (\<open>endSys\<close> is the attribute \<^verbatim>\<open>end\<close>). The attribute \<^verbatim>\<open>ship\<close> is an opaque object
  that no operation embedded here reads; it is left out.
\<close>

record bountyConfig = bountyCore +
  name :: string
  isPlayer :: bool
  start :: string
  endSys :: string
  icon :: string
  generated :: bool
  builtIn :: bool
  aliases :: "string list"
  wiki :: string

text \<open>
  The keyword arguments of \<^verbatim>\<open>BountyConfig.__init__\<close>, and their defaults. The reward
  may arrive as an \<^verbatim>\<open>int\<close> or as a (finite) \<^verbatim>\<open>float\<close>; the constructor truncates a
  float.
\<close>

datatype rewardArg = IntReward int | FloatReward real

record configArgs =
  arg_faction :: string
  arg_name :: string
  arg_isPlayer :: "bool option"
  arg_route :: "string list"
  arg_start :: string
  arg_end :: string
  arg_answer :: string
  arg_checked :: "string \<rightharpoonup> int"
  arg_reward :: rewardArg
  arg_issueTime :: real
  arg_endTime :: real
  arg_icon :: string
  arg_aliases :: "string list"
  arg_wiki :: string

definition defaultArgs :: configArgs where
  "defaultArgs = \<lparr>arg_faction = '''', arg_name = '''', arg_isPlayer = None, arg_route = [],
     arg_start = '''', arg_end = '''', arg_answer = '''', arg_checked = Map.empty,
     arg_reward = IntReward (-1), arg_issueTime = -1, arg_endTime = -1, arg_icon = '''',
     arg_aliases = [], arg_wiki = ''''\<rparr>"

definition BountyConfig_init :: "configArgs \<Rightarrow> bountyConfig" where
  "BountyConfig_init a =
     \<lparr>faction = lower (arg_faction a),
      route = map title (arg_route a),
      answer = title (arg_answer a),
      checked = arg_checked a,
      reward = (case arg_reward a of IntReward r \<Rightarrow> r | FloatReward x \<Rightarrow> py_int x),
      issueTime = arg_issueTime a,
      endTime = arg_endTime a,
      name = title (arg_name a),
      isPlayer = (case arg_isPlayer a of None \<Rightarrow> False | Some p \<Rightarrow> p),
      start = title (arg_start a),
      endSys = title (arg_end a),
      icon = arg_icon a,
      generated = False,
      builtIn = False,
      aliases = arg_aliases a,
      wiki = arg_wiki a\<rparr>"

subsection \<open>What generation reads from the rest of the bot\<close>

text \<open>
  The modules \<^verbatim>\<open>bbData\<close>, \<^verbatim>\<open>cfg\<close> and \<^verbatim>\<open>lib.pathfinding\<close>, the bounty database
  and the clock are not part of the embedded sources; generation takes them as
  parameters. A system object is represented by the answer of its
  \<^verbatim>\<open>hasJumpGate()\<close>; \<open>utcnow\<close> is the value of
  \<^verbatim>\<open>datetime.utcnow().replace(second=0).timestamp()\<close>.
\<close>

record environment =
  bountyNames :: "(string \<times> string list) list"
  bountyFactions :: "string list"
  builtInSystemObjs :: "(string \<times> bool) list"
  builtInCriminalObjs :: "(string \<times> criminal) list"
  rocketIcon :: string
  bPointsToCreditsRatio :: real
  bbAStar :: "string \<Rightarrow> string \<Rightarrow> pyerror + string list"
  utcnow :: real

record bountyDB =
  factionCanMakeBounty :: "string \<Rightarrow> bool"
  bountyNameExists :: "string \<Rightarrow> bool"

definition systemNames :: "environment \<Rightarrow> string list" where
  "systemNames E = map fst (builtInSystemObjs E)"

text \<open>
  A method call on the database; the database may be \<^verbatim>\<open>None\<close>, and then the call
  raises \<^verbatim>\<open>AttributeError\<close>.
\<close>

definition callDB :: "bountyDB option \<Rightarrow> (bountyDB \<Rightarrow> string \<Rightarrow> bool) \<Rightarrow> string \<Rightarrow> pyerror + bool" where
  "callDB owningDB method x =
     (case owningDB of None \<Rightarrow> Inl AttributeError | Some db \<Rightarrow> Inr (method db x))"

subsection \<open>Random choices\<close>

text \<open>
  The outcome of a computation that draws random numbers: \<open>None\<close> when the supplied
  draws run out before the computation has finished, otherwise the exception raised or
  the value returned.
\<close>

type_synonym 'a outcome = "(pyerror + 'a) option"

definition bindR :: "'a outcome \<Rightarrow> ('a \<Rightarrow> 'b outcome) \<Rightarrow> 'b outcome" where
  "bindR m f = (case m of None \<Rightarrow> None | Some (Inl e) \<Rightarrow> Some (Inl e) | Some (Inr x) \<Rightarrow> f x)"

text \<open>
  \<^verbatim>\<open>random.choice(seq)\<close> raises \<^verbatim>\<open>IndexError\<close> on an empty sequence; otherwise the
  next draw selects the element.
\<close>

definition choice :: "'a list \<Rightarrow> nat list \<Rightarrow> ('a \<times> nat list) outcome" where
  "choice seq draws =
     (if seq = [] then Some (Inl IndexError)
      else (case draws of
              [] \<Rightarrow> None
            | d # rest \<Rightarrow> Some (Inr (seq ! (d mod length seq), rest))))"

text \<open>
  The pattern \<^verbatim>\<open>x = random.choice(seq)\<close> followed by
  \<^verbatim>\<open>while retry(x): x = random.choice(seq)\<close>, which \<^verbatim>\<open>generate\<close> uses for the
  faction, the name, the start and the end of the route.
\<close>

fun chooseUntil :: "('a \<Rightarrow> pyerror + bool) \<Rightarrow> 'a list \<Rightarrow> nat list \<Rightarrow> ('a \<times> nat list) outcome" where
  "chooseUntil retry seq [] = (if seq = [] then Some (Inl IndexError) else None)"
| "chooseUntil retry seq (d # rest) =
     (if seq = [] then Some (Inl IndexError)
      else (case retry (seq ! (d mod length seq)) of
              Inl e \<Rightarrow> Some (Inl e)
            | Inr True \<Rightarrow> chooseUntil retry seq rest
            | Inr False \<Rightarrow> Some (Inr (seq ! (d mod length seq), rest))))"

subsection \<open>Generation\<close>

text \<open>Lines 143 to 153 of \<^verbatim>\<open>generate\<close>: the faction.\<close>

definition resolveFaction ::
  "environment \<Rightarrow> bountyDB option \<Rightarrow> bool \<Rightarrow> bountyConfig \<Rightarrow> nat list \<Rightarrow> (bountyConfig \<times> nat list) outcome"
where
  "resolveFaction E owningDB doDBCheck c draws =
     (if faction c = '''' then
        bindR (chooseUntil
                 (\<lambda>f. if doDBCheck
                      then (case callDB owningDB factionCanMakeBounty f of
                              Inl e \<Rightarrow> Inl e | Inr can \<Rightarrow> Inr (\<not> can))
                      else Inr False)
                 (bountyFactions E) draws)
          (\<lambda>(f, rest). Some (Inr (c\<lparr>faction := f\<rparr>, rest)))
      else if faction c \<notin> set (bountyFactions E) then Some (Inl ValueError)
      else if doDBCheck then
        (case callDB owningDB factionCanMakeBounty (faction c) of
           Inl e \<Rightarrow> Some (Inl e)
         | Inr can \<Rightarrow> if \<not> can then Some (Inl IndexError) else Some (Inr (c, draws)))
      else Some (Inr (c, draws)))"

text \<open>Lines 155 to 165: the name of the criminal.\<close>

definition resolveName ::
  "environment \<Rightarrow> bountyDB option \<Rightarrow> bool \<Rightarrow> bountyConfig \<Rightarrow> nat list \<Rightarrow> (bountyConfig \<times> nat list) outcome"
where
  "resolveName E owningDB doDBCheck c draws =
     (if name c = '''' then
        (case map_of (bountyNames E) (faction c) of
           None \<Rightarrow> Some (Inl KeyError)
         | Some names \<Rightarrow>
             bindR (chooseUntil
                      (\<lambda>n. if doDBCheck then callDB owningDB bountyNameExists n else Inr False)
                      names draws)
               (\<lambda>(n, rest). Some (Inr (c\<lparr>builtIn := True, name := n\<rparr>, rest))))
      else
        (case (if doDBCheck then callDB owningDB bountyNameExists (name c) else Inr False) of
           Inl e \<Rightarrow> Some (Inl e)
         | Inr True \<Rightarrow> Some (Inl KeyError)
         | Inr False \<Rightarrow>
             Some (Inr (if icon c = '''' then c\<lparr>icon := rocketIcon E\<rparr> else c, draws))))"

text \<open>Lines 139 to 170: the criminal.\<close>

definition resolveCriminal ::
  "environment \<Rightarrow> bountyDB option \<Rightarrow> bool \<Rightarrow> bool \<Rightarrow> bountyConfig \<Rightarrow> nat list \<Rightarrow> (bountyConfig \<times> nat list) outcome"
where
  "resolveCriminal E owningDB noCriminal doDBCheck c draws =
     (if noCriminal then
        (if name c \<in> set (map fst (bountyNames E)) then Some (Inr (c\<lparr>builtIn := True\<rparr>, draws))
         else bindR (resolveFaction E owningDB doDBCheck c draws)
                (\<lambda>(c1, rest). resolveName E owningDB doDBCheck c1 rest))
      else if doDBCheck then
        (case callDB owningDB factionCanMakeBounty (faction c) of
           Inl e \<Rightarrow> Some (Inl e)
         | Inr can \<Rightarrow> if \<not> can then Some (Inl IndexError) else Some (Inr (c, draws)))
      else Some (Inr (c, draws)))"

text \<open>
  Lines 173 to 184: the two ends of a route that is to be computed. The test of the loop
  looks the chosen system up only when it differs from the other end.
\<close>

definition hasNoJumpGate :: "environment \<Rightarrow> string \<Rightarrow> pyerror + bool" where
  "hasNoJumpGate E s =
     (case map_of (builtInSystemObjs E) s of
        None \<Rightarrow> Inl KeyError
      | Some gate \<Rightarrow> Inr (\<not> gate))"

definition resolveStart ::
  "environment \<Rightarrow> bountyConfig \<Rightarrow> nat list \<Rightarrow> (bountyConfig \<times> nat list) outcome"
where
  "resolveStart E c draws =
     (if start c = '''' then
        bindR (chooseUntil (\<lambda>s. if s = endSys c then Inr True else hasNoJumpGate E s)
                 (systemNames E) draws)
          (\<lambda>(s, rest). Some (Inr (c\<lparr>start := s\<rparr>, rest)))
      else if start c \<notin> set (systemNames E) then Some (Inl KeyError)
      else Some (Inr (c, draws)))"

definition resolveEnd ::
  "environment \<Rightarrow> bountyConfig \<Rightarrow> nat list \<Rightarrow> (bountyConfig \<times> nat list) outcome"
where
  "resolveEnd E c draws =
     (if endSys c = '''' then
        bindR (chooseUntil (\<lambda>s. if start c = s then Inr True else hasNoJumpGate E s)
                 (systemNames E) draws)
          (\<lambda>(s, rest). Some (Inr (c\<lparr>endSys := s\<rparr>, rest)))
      else if endSys c \<notin> set (systemNames E) then Some (Inl KeyError)
      else Some (Inr (c, draws)))"

text \<open>Lines 172 to 190: the route.\<close>

definition resolveRoute ::
  "environment \<Rightarrow> bountyConfig \<Rightarrow> nat list \<Rightarrow> (bountyConfig \<times> nat list) outcome"
where
  "resolveRoute E c draws =
     (if route c = [] then
        bindR (resolveStart E c draws)
          (\<lambda>(c1, rest1). bindR (resolveEnd E c1 rest1)
             (\<lambda>(c2, rest2).
                (case bbAStar E (start c2) (endSys c2) of
                   Inl e \<Rightarrow> Some (Inl e)
                 | Inr r \<Rightarrow> Some (Inr (c2\<lparr>route := r\<rparr>, rest2)))))
      else if list_all (\<lambda>system. system \<in> set (systemNames E)) (route c)
      then Some (Inr (c, draws))
      else Some (Inl KeyError))"

text \<open>Lines 191 to 194: the answer.\<close>

definition resolveAnswer ::
  "environment \<Rightarrow> bountyConfig \<Rightarrow> nat list \<Rightarrow> (bountyConfig \<times> nat list) outcome"
where
  "resolveAnswer E c draws =
     (if answer c = '''' then
        bindR (choice (route c) draws) (\<lambda>(a, rest). Some (Inr (c\<lparr>answer := a\<rparr>, rest)))
      else if answer c \<notin> set (systemNames E) then Some (Inl KeyError)
      else Some (Inr (c, draws)))"

text \<open>Lines 196 to 199: the reward.\<close>

definition resolveReward :: "environment \<Rightarrow> bountyConfig \<Rightarrow> pyerror + bountyConfig" where
  "resolveReward E c =
     (if reward c = -1
      then Inr (c\<lparr>reward := py_int (real (length (route c)) * bPointsToCreditsRatio E)\<rparr>)
      else if reward c < 0 then Inl ValueError
      else Inr c)"

text \<open>
  Lines 200 to 203: the time stamps. The default end time adds one day for each system
  of the route to the date of the issue time; on time stamps that is
  \<open>86400\<close> seconds for each system.
\<close>

definition resolveTimes :: "environment \<Rightarrow> bountyConfig \<Rightarrow> bountyConfig" where
  "resolveTimes E c =
     (let c1 = (if issueTime c = -1 then c\<lparr>issueTime := utcnow E\<rparr> else c)
      in if endTime c1 = -1
         then c1\<lparr>endTime := issueTime c1 + 86400 * real (length (route c1))\<rparr>
         else c1)"

text \<open>Lines 205 to 209: the checked-map.\<close>

fun fillChecked :: "bool \<Rightarrow> string list \<Rightarrow> (string \<rightharpoonup> int) \<Rightarrow> (string \<rightharpoonup> int)" where
  "fillChecked forceKeepChecked [] chk = chk"
| "fillChecked forceKeepChecked (station # rest) chk =
     fillChecked forceKeepChecked rest
       (if \<not> forceKeepChecked \<or> chk station = None \<or> chk = Map.empty
        then chk(station \<mapsto> -1) else chk)"

definition resolveChecked :: "bool \<Rightarrow> bountyConfig \<Rightarrow> bountyConfig" where
  "resolveChecked forceKeepChecked c =
     c\<lparr>checked := fillChecked forceKeepChecked (route c)
                     (if \<not> forceKeepChecked then Map.empty else checked c)\<rparr>"

text \<open>The steps of \<^verbatim>\<open>generate\<close> before the reward is looked at.\<close>

definition resolveUpToAnswer ::
  "environment \<Rightarrow> bountyDB option \<Rightarrow> bool \<Rightarrow> bool \<Rightarrow> bountyConfig \<Rightarrow> nat list \<Rightarrow> (bountyConfig \<times> nat list) outcome"
where
  "resolveUpToAnswer E owningDB noCriminal forceNoDBCheck c draws =
     bindR (resolveCriminal E owningDB noCriminal (\<not> forceNoDBCheck) c draws)
       (\<lambda>(c1, rest1). bindR (resolveRoute E c1 rest1)
          (\<lambda>(c2, rest2). resolveAnswer E c2 rest2))"

definition generate ::
  "environment \<Rightarrow> bountyDB option \<Rightarrow> bool \<Rightarrow> bool \<Rightarrow> bool \<Rightarrow> bountyConfig \<Rightarrow> nat list \<Rightarrow> (bountyConfig \<times> nat list) outcome"
where
  "generate E owningDB noCriminal forceKeepChecked forceNoDBCheck c draws =
     bindR (resolveUpToAnswer E owningDB noCriminal forceNoDBCheck c draws)
       (\<lambda>(c3, rest).
          (case resolveReward E c3 of
             Inl e \<Rightarrow> Some (Inl e)
           | Inr c4 \<Rightarrow>
               Some (Inr ((resolveChecked forceKeepChecked (resolveTimes E c4))\<lparr>generated := True\<rparr>,
                          rest))))"

section \<open>Constructing, serialising and reloading bounties\<close>

text \<open>
  \<^verbatim>\<open>Bounty.__init__\<close>. The constructor of \<^verbatim>\<open>Criminal\<close> stores its arguments;
  a built-in criminal is looked up by name.
\<close>

definition Bounty_init ::
  "environment \<Rightarrow> criminal option \<Rightarrow> bountyConfig option \<Rightarrow> bountyDB option \<Rightarrow> bool \<Rightarrow> nat list
     \<Rightarrow> (bounty \<times> nat list) outcome"
where
  "Bounty_init E criminalArg config owningDB dbReload draws =
     (if \<not> dbReload \<and> owningDB = None then Some (Inl ValueError)
      else
        (let makeFresh = (criminalArg = None);
             config1 = (case config of
                          Some c \<Rightarrow> c
                        | None \<Rightarrow>
                            (case criminalArg of
                               None \<Rightarrow> BountyConfig_init defaultArgs
                             | Some cr \<Rightarrow>
                                 BountyConfig_init
                                   (defaultArgs\<lparr>arg_faction := crimFaction cr,
                                                arg_name := crimName cr\<rparr>)))
         in bindR (if \<not> generated config1
                   then generate E owningDB makeFresh dbReload dbReload config1 draws
                   else Some (Inr (config1, draws)))
              (\<lambda>(cfg, rest).
                 (case (case criminalArg of
                          Some cr \<Rightarrow> Inr cr
                        | None \<Rightarrow>
                            if builtIn cfg
                            then (case map_of (builtInCriminalObjs E) (name cfg) of
                                    None \<Rightarrow> Inl KeyError
                                  | Some cr \<Rightarrow> Inr cr)
                            else Inr \<lparr>crimName = name cfg, crimFaction = faction cfg,
                                      crimIcon = icon cfg, crimIsPlayer = isPlayer cfg,
                                      crimAliases = aliases cfg, crimWiki = wiki cfg\<rparr>) of
                    Inl e \<Rightarrow> Some (Inl e)
                  | Inr cr \<Rightarrow>
                      Some (Inr (\<lparr>faction = crimFaction cr, route = route cfg,
                                  answer = answer cfg, checked = checked cfg,
                                  reward = reward cfg, issueTime = issueTime cfg,
                                  endTime = endTime cfg, criminalObj = cr,
                                  respawnTT = None\<rparr>, rest))))))"

text \<open>
  The dictionary of \<^verbatim>\<open>toDict\<close>: the attributes of \<open>bountyCore\<close> and the serialised
  criminal. Modelled from the spec: \<^verbatim>\<open>Criminal.toDict\<close> and \<^verbatim>\<open>Criminal.fromDict\<close>
  are not part of the embedded sources; the dictionary carries the criminal record as it
  is (section 6, an embedded criminal record).
\<close>

record bountyDict = bountyCore +
  criminalDict :: criminal


text \<open>
  \<^verbatim>\<open>fromDict\<close>; the keyword arguments \<^verbatim>\<open>owningDB\<close> (default \<^verbatim>\<open>None\<close>) and
  \<^verbatim>\<open>dbReload\<close> (default \<^verbatim>\<open>False\<close>) are explicit.
\<close>

definition fromDict ::
  "environment \<Rightarrow> bountyDict \<Rightarrow> bountyDB option \<Rightarrow> bool \<Rightarrow> nat list \<Rightarrow> (bounty \<times> nat list) outcome"
where
  "fromDict E d owningDB dbReload draws =
     (let newCfg = BountyConfig_init
                     (defaultArgs\<lparr>arg_faction := faction d, arg_route := route d,
                                  arg_answer := answer d, arg_checked := checked d,
                                  arg_reward := IntReward (reward d),
                                  arg_issueTime := issueTime d, arg_endTime := endTime d\<rparr>)
      in Bounty_init E (Some (criminalDict d)) (Some newCfg) owningDB dbReload draws)"


section \<open>Auxiliary notions for stating the properties\<close>

definition checkedBy :: "bounty \<Rightarrow> int \<Rightarrow> string list \<Rightarrow> string list" where
  "checkedBy b u xs = filter (\<lambda>s. checked b s = Some u \<and> u \<noteq> -1) xs"

definition uncheckedCount :: "bounty \<Rightarrow> nat" where
  "uncheckedCount b = length (filter (\<lambda>s. checked b s = Some (-1)) (route b))"

definition shares :: "bounty \<Rightarrow> int \<Rightarrow> string list \<Rightarrow> int" where
  "shares b k xs = (\<Sum>s\<leftarrow>xs. if s = answer b then k + 1 else 1)"


definition credit :: "bounty \<Rightarrow> int \<Rightarrow> string list \<Rightarrow> int \<Rightarrow> userReward \<Rightarrow> userReward" where
  "credit b k xs u e =
     \<lparr>rw_reward = rw_reward e + share b * shares b k (checkedBy b u xs),
      rw_checked = rw_checked e + int (length (checkedBy b u xs)),
      rw_won = (rw_won e \<or> answer b \<in> set (checkedBy b u xs))\<rparr>"

definition rewardsOf :: "bounty \<Rightarrow> int \<rightharpoonup> userReward" where
  "rewardsOf b u =
     (if checkedBy b u (route b) = [] then None
      else Some \<lparr>rw_reward = share b * shares b (int (uncheckedCount b)) (checkedBy b u (route b)),
                 rw_checked = int (length (checkedBy b u (route b))),
                 rw_won = (answer b \<in> set (checkedBy b u (route b)))\<rparr>)"

text \<open>
  Two objects agree on the attributes a bounty takes over from its configuration and
  writes to its dictionary (the faction apart).
\<close>

definition sameCore :: "'a bountyCore_scheme \<Rightarrow> 'b bountyCore_scheme \<Rightarrow> bool" where
  "sameCore x y \<longleftrightarrow> route y = route x \<and> answer y = answer x \<and> checked y = checked x \<and>
     reward y = reward x \<and> issueTime y = issueTime x \<and> endTime y = endTime x"




section \<open>Example objects\<close>

text \<open>The bounty of the example in section 8 of the specification, nothing checked yet.\<close>

definition exampleCriminal :: criminal where
  "exampleCriminal = \<lparr>crimName = ''Ganar Gray'', crimFaction = ''terran'', crimIcon = '''',
     crimIsPlayer = False, crimAliases = [], crimWiki = ''''\<rparr>"

definition exampleBounty :: bounty where
  "exampleBounty = \<lparr>faction = ''terran'', route = [''A'', ''B'', ''C'', ''D''], answer = ''C'',
     checked = [''A'' \<mapsto> -1, ''B'' \<mapsto> -1, ''C'' \<mapsto> -1, ''D'' \<mapsto> -1],
     reward = 40, issueTime = 0, endTime = 345600,
     criminalObj = exampleCriminal, respawnTT = None\<rparr>"


text \<open>
  A catalogue of four systems with jump gates, one faction with one built-in criminal,
  a path finder that returns the two ends of the route, and a database with room for
  every bounty.
\<close>

definition exampleEnv :: environment where
  "exampleEnv =
     \<lparr>bountyNames = [(''terran'', [''Ganar Gray''])],
      bountyFactions = [''terran''],
      builtInSystemObjs = [(''A'', True), (''B'', True), (''C'', True), (''D'', True)],
      builtInCriminalObjs = [(''Ganar Gray'', exampleCriminal)],
      rocketIcon = ''rocket.png'',
      bPointsToCreditsRatio = 1000,
      bbAStar = (\<lambda>s e. if s \<in> set [''A'', ''B'', ''C'', ''D''] \<and> e \<in> set [''A'', ''B'', ''C'', ''D'']
                         then Inr [s, e] else Inl KeyError),
      utcnow = 1600000000\<rparr>"

definition exampleDB :: bountyDB where
  "exampleDB = \<lparr>factionCanMakeBounty = (\<lambda>f. True), bountyNameExists = (\<lambda>n. False)\<rparr>"

definition exampleConfig :: bountyConfig where
  "exampleConfig = BountyConfig_init (defaultArgs\<lparr>arg_route := [''A'', ''B'', ''C'', ''D''],
         arg_answer := ''C'', arg_checked := [''A'' \<mapsto> 101], arg_reward := IntReward 40,
         arg_issueTime := 0, arg_endTime := 345600\<rparr>)"

definition freshConfig :: bountyConfig where
  "freshConfig = \<lparr>faction = ''terran'', route = [''A'', ''B''], answer = ''B'',
     checked = [''A'' \<mapsto> -1, ''B'' \<mapsto> -1], reward = 2000, issueTime = 1600000000,
     endTime = 1600172800, name = ''Ganar Gray'', isPlayer = False, start = ''A'',
     endSys = ''B'', icon = '''', generated = True, builtIn = True, aliases = [],
     wiki = ''''\<rparr>"

definition freshBounty :: bounty where
  "freshBounty = \<lparr>faction = ''terran'', route = [''A'', ''B''], answer = ''B'',
     checked = [''A'' \<mapsto> -1, ''B'' \<mapsto> -1], reward = 2000, issueTime = 1600000000,
     endTime = 1600172800, criminalObj = exampleCriminal, respawnTT = None\<rparr>"

definition partialDict :: bountyDict where
  "partialDict = \<lparr>faction = ''terran'', route = [''A'', ''B''], answer = ''B'',
     checked = [''A'' \<mapsto> 101], reward = 2000, issueTime = 1600000000,
     endTime = 1600172800, criminalDict = exampleCriminal\<rparr>"

definition strayConfig :: bountyConfig where
  "strayConfig = BountyConfig_init (defaultArgs\<lparr>arg_route := [''A'', ''B''], arg_answer := ''C'',
         arg_checked := [''Z'' \<mapsto> 7], arg_reward := IntReward 5, arg_issueTime := 10,
         arg_endTime := 5\<rparr>)"

definition minusOneConfig :: bountyConfig where
  "minusOneConfig = BountyConfig_init (defaultArgs\<lparr>arg_route := [''A'', ''B''],
         arg_answer := ''A'', arg_reward := IntReward (-1)\<rparr>)"

definition negativeConfig :: bountyConfig where
  "negativeConfig = BountyConfig_init (defaultArgs\<lparr>arg_route := [''A'', ''B''],
         arg_answer := ''A'', arg_reward := IntReward (-5)\<rparr>)"

definition halfConfig :: bountyConfig where
  "halfConfig = BountyConfig_init (defaultArgs\<lparr>arg_route := [''A'', ''B''],
         arg_answer := ''A'', arg_reward := FloatReward (- 1 / 2)\<rparr>)"

definition strayReloaded :: bountyConfig where
  "strayReloaded = strayConfig\<lparr>checked := [''Z'' \<mapsto> 7, ''A'' \<mapsto> -1, ''B'' \<mapsto> -1],
                               generated := True\<rparr>"

definition strayFresh :: bountyConfig where
  "strayFresh = strayConfig\<lparr>faction := ''terran'', name := ''Ganar Gray'', builtIn := True,
                            checked := [''A'' \<mapsto> -1, ''B'' \<mapsto> -1], generated := True\<rparr>"

definition minusOneGenerated :: bountyConfig where
  "minusOneGenerated = minusOneConfig\<lparr>faction := ''terran'', name := ''Ganar Gray'',
       builtIn := True, checked := [''A'' \<mapsto> -1, ''B'' \<mapsto> -1], reward := 2000,
       issueTime := 1600000000, endTime := 1600172800, generated := True\<rparr>"

definition halfGenerated :: bountyConfig where
  "halfGenerated = halfConfig\<lparr>faction := ''terran'', name := ''Ganar Gray'', builtIn := True,
       checked := [''A'' \<mapsto> -1, ''B'' \<mapsto> -1], issueTime := 1600000000,
       endTime := 1600172800, generated := True\<rparr>"


section \<open>Properties of the reward distribution\<close>

lemma checkedBy_Cons:
  "checkedBy b u (s # xs) =
     (if checked b s = Some u \<and> u \<noteq> -1 then s # checkedBy b u xs else checkedBy b u xs)"
  by (simp add: checkedBy_def)

lemma checkedBy_Nil [simp]: "checkedBy b u [] = []"
  by (simp add: checkedBy_def)

lemma countChecked_result:
  assumes "set xs \<subseteq> dom (checked b)"
  shows "\<exists>rw'. countChecked b xs rw n =
            Inr (rw', n + int (length (filter (\<lambda>s. checked b s \<noteq> Some (-1)) xs))) \<and>
          (\<forall>u. rw' u = (if rw u \<noteq> None then rw u
                         else if checkedBy b u xs \<noteq> []
                              then Some \<lparr>rw_reward = 0, rw_checked = 0, rw_won = False\<rparr>
                              else None))"
  using assms
proof (induction xs arbitrary: rw n)
  case Nil
  then show ?case by simp
next
  case (Cons s xs)
  from Cons.prems obtain v where v: "checked b s = Some v" and sub: "set xs \<subseteq> dom (checked b)"
    by auto
  show ?case
  proof (cases "v = -1")
    case True
    have same: "\<And>u. checkedBy b u (s # xs) = checkedBy b u xs"
      using v True by (auto simp: checkedBy_Cons)
    from Cons.IH[OF sub, of rw n] obtain rw' where
      r: "countChecked b xs rw n =
            Inr (rw', n + int (length (filter (\<lambda>s. checked b s \<noteq> Some (-1)) xs)))"
      and p: "\<forall>u. rw' u = (if rw u \<noteq> None then rw u
                         else if checkedBy b u xs \<noteq> []
                              then Some \<lparr>rw_reward = 0, rw_checked = 0, rw_won = False\<rparr>
                              else None)"
      by blast
    have "countChecked b (s # xs) rw n =
            Inr (rw', n + int (length (filter (\<lambda>s. checked b s \<noteq> Some (-1)) (s # xs))))"
      using v True r by (simp add: systemChecked_def)
    with p show ?thesis unfolding same by blast
  next
    case False
    let ?rw1 = "if rw v = None
                then rw(v \<mapsto> \<lparr>rw_reward = 0, rw_checked = 0, rw_won = False\<rparr>) else rw"
    from Cons.IH[OF sub, of ?rw1 "n + 1"] obtain rw' where
      r: "countChecked b xs ?rw1 (n + 1) =
            Inr (rw', n + 1 + int (length (filter (\<lambda>s. checked b s \<noteq> Some (-1)) xs)))"
      and p: "\<forall>u. rw' u = (if ?rw1 u \<noteq> None then ?rw1 u
                         else if checkedBy b u xs \<noteq> []
                              then Some \<lparr>rw_reward = 0, rw_checked = 0, rw_won = False\<rparr>
                              else None)"
      by blast
    have "countChecked b (s # xs) rw n =
            Inr (rw', n + int (length (filter (\<lambda>s. checked b s \<noteq> Some (-1)) (s # xs))))"
      using v False r by (simp add: systemChecked_def)
    moreover have "\<forall>u. rw' u = (if rw u \<noteq> None then rw u
                         else if checkedBy b u (s # xs) \<noteq> []
                              then Some \<lparr>rw_reward = 0, rw_checked = 0, rw_won = False\<rparr>
                              else None)"
      using p v False by (auto simp: checkedBy_Cons)
    ultimately show ?thesis by blast
  qed
qed

lemma credit_Nil [simp]: "credit b k [] u e = e"
  by (simp add: credit_def shares_def)

lemma creditChecked_result:
  assumes "set xs \<subseteq> dom (checked b)"
    and "\<forall>u. checkedBy b u xs \<noteq> [] \<longrightarrow> rw u \<noteq> None"
  shows "\<exists>rw'. creditChecked b k xs rw = Inr rw' \<and>
           (\<forall>u. rw' u = map_option (credit b k xs u) (rw u))"
  using assms
proof (induction xs arbitrary: rw)
  case Nil
  then show ?case by (simp add: option.map_ident)
next
  case (Cons s xs)
  from Cons.prems obtain v where v: "checked b s = Some v" and sub: "set xs \<subseteq> dom (checked b)"
    by auto
  show ?case
  proof (cases "v = -1")
    case True
    have pre: "\<forall>u. checkedBy b u xs \<noteq> [] \<longrightarrow> rw u \<noteq> None"
      using Cons.prems(2) by (auto simp: checkedBy_Cons)
    have same: "\<And>u. checkedBy b u (s # xs) = checkedBy b u xs"
      using v True by (auto simp: checkedBy_Cons)
    have same': "\<And>u. credit b k (s # xs) u = credit b k xs u"
      by (intro ext) (simp add: credit_def same)
    from Cons.IH[OF sub pre] obtain rw' where
      r: "creditChecked b k xs rw = Inr rw'"
      and p: "\<forall>u. rw' u = map_option (credit b k xs u) (rw u)"
      by blast
    have "creditChecked b k (s # xs) rw = Inr rw'"
      using v True r by (simp add: systemChecked_def)
    with p show ?thesis unfolding same' by blast
  next
    case False
    from Cons.prems(2) v False obtain e where e: "rw v = Some e"
      by (fastforce simp: checkedBy_Cons)
    define e2 where "e2 = (if answer b = s
        then e\<lparr>rw_checked := rw_checked e + 1,
               rw_reward := rw_reward e + share b * (k + 1), rw_won := True\<rparr>
        else e\<lparr>rw_checked := rw_checked e + 1, rw_reward := rw_reward e + share b\<rparr>)"
    have pre: "\<forall>u. checkedBy b u xs \<noteq> [] \<longrightarrow> (rw(v \<mapsto> e2)) u \<noteq> None"
      using Cons.prems(2) by (auto simp: checkedBy_Cons)
    from Cons.IH[OF sub pre] obtain rw' where
      r: "creditChecked b k xs (rw(v \<mapsto> e2)) = Inr rw'"
      and p: "\<forall>u. rw' u = map_option (credit b k xs u) ((rw(v \<mapsto> e2)) u)"
      by blast
    have "creditChecked b k (s # xs) rw = Inr rw'"
      using v False e r by (cases "answer b = s") (simp_all add: systemChecked_def e2_def Let_def)
    moreover have "rw' u = map_option (credit b k (s # xs) u) (rw u)" for u
    proof (cases "u = v")
      case True
      have "credit b k xs v e2 = credit b k (s # xs) v e"
        using v False
        by (simp add: credit_def e2_def checkedBy_Cons shares_def algebra_simps)
      with p e True show ?thesis by simp
    next
      case False
      then have "checkedBy b u (s # xs) = checkedBy b u xs"
        using v by (simp add: checkedBy_Cons)
      then have "credit b k (s # xs) u = credit b k xs u"
        by (intro ext) (simp add: credit_def)
      with p False show ?thesis by simp
    qed
    ultimately show ?thesis by blast
  qed
qed

lemma unchecked_length:
  assumes "set xs \<subseteq> dom (checked b)"
  shows "int (length xs) - int (length (filter (\<lambda>s. checked b s \<noteq> Some (-1)) xs)) =
    int (length (filter (\<lambda>s. checked b s = Some (-1)) xs))"
proof -
  have "length xs = length (filter (\<lambda>s. checked b s = Some (-1)) xs) +
      length (filter (\<lambda>s. \<not> checked b s = Some (-1)) xs)"
    by (rule sum_length_filter_compl[symmetric])
  then show ?thesis by simp
qed

lemma calcRewards_rewardsOf:
  assumes keys: "set (route b) \<subseteq> dom (checked b)"
  shows "calcRewards b = Inr (rewardsOf b)"
proof -
  from countChecked_result[OF keys, of Map.empty 0] obtain rw1 where
    c1: "countChecked b (route b) Map.empty 0 =
           Inr (rw1, int (length (filter (\<lambda>s. checked b s \<noteq> Some (-1)) (route b))))"
    and p1: "\<forall>u. rw1 u = (if checkedBy b u (route b) \<noteq> []
                then Some \<lparr>rw_reward = 0, rw_checked = 0, rw_won = False\<rparr> else None)"
    by auto
  let ?k = "int (length (route b)) - int (length (filter (\<lambda>s. checked b s \<noteq> Some (-1)) (route b)))"
  have k: "?k = int (uncheckedCount b)"
    using unchecked_length[OF keys] by (simp add: uncheckedCount_def)
  have pre: "\<forall>u. checkedBy b u (route b) \<noteq> [] \<longrightarrow> rw1 u \<noteq> None"
    using p1 by simp
  from creditChecked_result[OF keys pre, of ?k] obtain rw2 where
    c2: "creditChecked b ?k (route b) rw1 = Inr rw2"
    and p2: "\<forall>u. rw2 u = map_option (credit b ?k (route b) u) (rw1 u)"
    by blast
  have "rw2 u = rewardsOf b u" for u
    using p1 p2 k by (simp add: rewardsOf_def credit_def)
  then have "rw2 = rewardsOf b" by (rule ext)
  with c1 c2 show ?thesis by (simp add: calcRewards_def)
qed






















section \<open>Properties of checking\<close>

lemma check_result:
  assumes "set (route b) \<subseteq> dom (checked b)"
  shows "check b system userID =
     (if system \<notin> set (route b) then Inr (0, b)
      else if checked b system \<noteq> Some (-1) then Inr (1, b)
      else Inr (if system = answer b then 3 else 2,
                b\<lparr>checked := (checked b)(system \<mapsto> userID)\<rparr>))"
  using assms by (auto simp: check_def systemChecked_def Let_def split: option.splits)





section \<open>Properties of escaping\<close>

lemma applyOp_no_task:
  assumes "respawnTT b = None"
  shows "respawnTT (applyOp b op) = None"
proof (cases op)
  case (Escape tt)
  with assms show ?thesis by (simp add: escape_def isEscaped_def)
next
  case CancelRespawn
  with assms show ?thesis by (simp add: cancelRespawn_def isEscaped_def)
next
  case ForceRespawn
  with assms show ?thesis by (simp add: forceRespawn_def isEscaped_def)
next
  case (Check system userID)
  with assms show ?thesis
    by (auto simp: check_def systemChecked_def Let_def split: option.splits bool.splits)
qed

lemma applyOps_no_task:
  assumes "respawnTT b = None"
  shows "respawnTT (applyOps b ops) = None"
  using assms unfolding applyOps_def
  by (induction ops arbitrary: b) (simp_all add: applyOp_no_task)

text \<open>
  Claim C2 does not hold of the code: \<^verbatim>\<open>isEscaped\<close> tests
  \<^verbatim>\<open>self.respawnTT is None\<close>. A bounty without a respawn task reports itself
  escaped, no sequence of operations ever attaches a task to it, \<^verbatim>\<open>cancelRespawn\<close>
  and \<^verbatim>\<open>forceRespawn\<close> pass their guard and fail on the missing task, and a bounty
  that holds a task reports itself not escaped.
\<close>

theorem isEscaped_without_task:
  "respawnTT exampleBounty = None \<and> isEscaped exampleBounty \<and>
   (\<forall>ops. respawnTT (applyOps exampleBounty ops) = None \<and>
          isEscaped (applyOps exampleBounty ops)) \<and>
   cancelRespawn exampleBounty = Inl AttributeError \<and>
   forceRespawn exampleBounty = Inl AttributeError \<and>
   \<not> isEscaped (exampleBounty\<lparr>respawnTT := Some tt\<rparr>)"
proof -
  have n: "respawnTT exampleBounty = None" by (simp add: exampleBounty_def)
  have "\<forall>ops. respawnTT (applyOps exampleBounty ops) = None \<and>
          isEscaped (applyOps exampleBounty ops)"
    using applyOps_no_task[OF n] by (simp add: isEscaped_def)
  with n show ?thesis
    by (simp add: isEscaped_def cancelRespawn_def forceRespawn_def)
qed

text \<open>
  Claim C3 does not hold of the code: on a bounty without a respawn task
  \<^verbatim>\<open>escape\<close> raises \<^verbatim>\<open>ValueError\<close>, and on a bounty that holds a task it
  succeeds and replaces the task.
\<close>

theorem escape_raises_without_task:
  "respawnTT exampleBounty = None \<and>
   escape exampleBounty tt = Inl ValueError \<and>
   escape (exampleBounty\<lparr>respawnTT := Some tt1\<rparr>) tt2 =
     Inr (exampleBounty\<lparr>respawnTT := Some tt2\<rparr>)"
  by (simp add: exampleBounty_def escape_def isEscaped_def)

section \<open>Properties of generation\<close>

lemmas string_simps = title_def lower_def isLower_def isUpper_def toUpper_def toLower_def

lemmas generate_simps = generate_def resolveUpToAnswer_def resolveCriminal_def resolveFaction_def
  resolveName_def resolveRoute_def resolveStart_def resolveEnd_def resolveAnswer_def
  resolveReward_def resolveTimes_def resolveChecked_def bindR_def callDB_def choice_def
  hasNoJumpGate_def systemNames_def

lemma bindR_Inr_iff:
  "bindR m f = Some (Inr y) \<longleftrightarrow> (\<exists>x. m = Some (Inr x) \<and> f x = Some (Inr y))"
  by (auto simp: bindR_def split: option.splits sum.splits)

lemma chooseUntil_Inr:
  assumes "chooseUntil retry seq draws = Some (Inr (x, rest))"
  shows "x \<in> set seq \<and> retry x = Inr False"
  using assms
proof (induction draws)
  case Nil
  then show ?case by (simp split: if_splits)
next
  case (Cons d draws)
  show ?case
  proof (cases "seq = []")
    case True
    with Cons.prems show ?thesis by simp
  next
    case False
    then have mem: "seq ! (d mod length seq) \<in> set seq" by simp
    from Cons.prems False Cons.IH mem show ?thesis
      by (auto split: sum.splits bool.splits)
  qed
qed

lemma choice_Inr:
  assumes "choice seq draws = Some (Inr (x, rest))"
  shows "x \<in> set seq"
  using assms by (auto simp: choice_def split: if_splits list.splits)

lemma sameCore_refl [simp]: "sameCore c c"
  by (simp add: sameCore_def)

lemma sameCore_trans: "sameCore a b \<Longrightarrow> sameCore b c \<Longrightarrow> sameCore a c"
  by (simp add: sameCore_def)

lemma resolveFaction_same:
  assumes "resolveFaction E owningDB doDBCheck c draws = Some (Inr (c', rest))"
  shows "sameCore c c'"
  using assms
  by (auto simp: resolveFaction_def bindR_Inr_iff sameCore_def split: if_splits sum.splits)

lemma resolveName_same:
  assumes "resolveName E owningDB doDBCheck c draws = Some (Inr (c', rest))"
  shows "sameCore c c'"
  using assms
  by (auto simp: resolveName_def bindR_Inr_iff sameCore_def
      split: if_splits sum.splits option.splits bool.splits)

lemma resolveCriminal_same:
  assumes "resolveCriminal E owningDB noCriminal doDBCheck c draws = Some (Inr (c', rest))"
  shows "sameCore c c'"
proof (cases "noCriminal \<and> name c \<notin> set (map fst (bountyNames E))")
  case True
  with assms obtain c1 rest1 where
    "resolveFaction E owningDB doDBCheck c draws = Some (Inr (c1, rest1))"
    "resolveName E owningDB doDBCheck c1 rest1 = Some (Inr (c', rest))"
    by (auto simp: resolveCriminal_def bindR_Inr_iff)
  then show ?thesis
    using resolveFaction_same resolveName_same sameCore_trans by blast
next
  case False
  with assms show ?thesis
    by (auto simp: resolveCriminal_def sameCore_def split: if_splits sum.splits)
qed

lemma resolveStart_same:
  assumes "resolveStart E c draws = Some (Inr (c', rest))"
  shows "sameCore c c'"
  using assms
  by (auto simp: resolveStart_def bindR_Inr_iff sameCore_def split: if_splits)

lemma resolveEnd_same:
  assumes "resolveEnd E c draws = Some (Inr (c', rest))"
  shows "sameCore c c'"
  using assms
  by (auto simp: resolveEnd_def bindR_Inr_iff sameCore_def split: if_splits)

lemma resolveRoute_result:
  assumes "resolveRoute E c draws = Some (Inr (c', rest))"
  shows "answer c' = answer c \<and> checked c' = checked c \<and> reward c' = reward c \<and>
         issueTime c' = issueTime c \<and> endTime c' = endTime c \<and>
         (if route c = [] then \<exists>s e. bbAStar E s e = Inr (route c')
          else route c' = route c \<and> set (route c) \<subseteq> set (systemNames E))"
proof (cases "route c = []")
  case False
  with assms show ?thesis
    by (auto simp: resolveRoute_def list_all_iff split: if_splits)
next
  case True
  with assms obtain c1 rest1 c2 rest2 where
    s: "resolveStart E c draws = Some (Inr (c1, rest1))"
    and e: "resolveEnd E c1 rest1 = Some (Inr (c2, rest2))"
    and a: "(case bbAStar E (start c2) (endSys c2) of
                   Inl e \<Rightarrow> Some (Inl e)
                 | Inr r \<Rightarrow> Some (Inr (c2\<lparr>route := r\<rparr>, rest2))) = Some (Inr (c', rest))"
    by (auto simp: resolveRoute_def bindR_Inr_iff)
  from a obtain r where r: "bbAStar E (start c2) (endSys c2) = Inr r" and c': "c' = c2\<lparr>route := r\<rparr>"
    by (auto split: sum.splits)
  from resolveStart_same[OF s] resolveEnd_same[OF e] have "sameCore c c2"
    by (rule sameCore_trans)
  with r c' True show ?thesis by (auto simp: sameCore_def)
qed

lemma resolveAnswer_result:
  assumes "resolveAnswer E c draws = Some (Inr (c', rest))"
  shows "route c' = route c \<and> checked c' = checked c \<and> reward c' = reward c \<and>
         issueTime c' = issueTime c \<and> endTime c' = endTime c \<and>
         (if answer c = '''' then answer c' \<in> set (route c')
          else answer c' = answer c \<and> answer c \<in> set (systemNames E))"
  using assms
  by (auto simp: resolveAnswer_def bindR_Inr_iff dest: choice_Inr split: if_splits)

lemma resolveUpToAnswer_result:
  assumes "resolveUpToAnswer E owningDB noCriminal forceNoDBCheck c draws = Some (Inr (c', rest))"
  shows "checked c' = checked c \<and> reward c' = reward c \<and>
         issueTime c' = issueTime c \<and> endTime c' = endTime c \<and>
         (if route c = [] then \<exists>s e. bbAStar E s e = Inr (route c')
          else route c' = route c \<and> set (route c) \<subseteq> set (systemNames E)) \<and>
         (if answer c = '''' then answer c' \<in> set (route c')
          else answer c' = answer c \<and> answer c \<in> set (systemNames E))"
proof -
  from assms obtain c1 rest1 c2 rest2 where
    1: "resolveCriminal E owningDB noCriminal (\<not> forceNoDBCheck) c draws = Some (Inr (c1, rest1))"
    and 2: "resolveRoute E c1 rest1 = Some (Inr (c2, rest2))"
    and 3: "resolveAnswer E c2 rest2 = Some (Inr (c', rest))"
    by (auto simp: resolveUpToAnswer_def bindR_Inr_iff)
  from resolveCriminal_same[OF 1] resolveRoute_result[OF 2] resolveAnswer_result[OF 3]
  show ?thesis unfolding sameCore_def by (auto split: if_splits)
qed

lemma dom_fillChecked:
  "dom (fillChecked keep xs chk) = dom chk \<union> set xs"
  by (induction xs arbitrary: chk) (auto split: if_splits)

lemma fillChecked_test:
  "(\<not> keep \<or> chk x = None \<or> chk = Map.empty) \<longleftrightarrow> (\<not> keep \<or> chk x = None)"
  by auto

lemma fillChecked_apply:
  "fillChecked keep xs chk s =
     (if s \<in> set xs \<and> (\<not> keep \<or> chk s = None) then Some (-1) else chk s)"
proof (induction xs arbitrary: chk)
  case Nil
  show ?case by simp
next
  case (Cons x xs)
  show ?case
    unfolding fillChecked.simps fillChecked_test Cons.IH by auto
qed

lemma resolveReward_same:
  assumes "resolveReward E c = Inr c'"
  shows "route c' = route c \<and> answer c' = answer c \<and> checked c' = checked c \<and>
         issueTime c' = issueTime c \<and> endTime c' = endTime c"
  using assms by (auto simp: resolveReward_def split: if_splits)

lemma generate_Inr:
  assumes "generate E owningDB noCriminal keep noDB c draws = Some (Inr (c', rest))"
  obtains c3 c4 where
    "resolveUpToAnswer E owningDB noCriminal noDB c draws = Some (Inr (c3, rest))"
    "resolveReward E c3 = Inr c4"
    "c' = (resolveChecked keep (resolveTimes E c4))\<lparr>generated := True\<rparr>"
proof -
  from assms obtain c3 rest3 where
    3: "resolveUpToAnswer E owningDB noCriminal noDB c draws = Some (Inr (c3, rest3))"
    and r: "(case resolveReward E c3 of
             Inl e \<Rightarrow> Some (Inl e)
           | Inr c4 \<Rightarrow>
               Some (Inr ((resolveChecked keep (resolveTimes E c4))\<lparr>generated := True\<rparr>, rest3)))
          = Some (Inr (c', rest))"
    by (auto simp: generate_def bindR_Inr_iff)
  from r obtain c4 where "resolveReward E c3 = Inr c4"
    and "c' = (resolveChecked keep (resolveTimes E c4))\<lparr>generated := True\<rparr>"
    and "rest3 = rest"
    by (auto split: sum.splits)
  with 3 that show thesis by blast
qed

lemma resolveTimes_fields:
  "route (resolveTimes E c) = route c \<and> answer (resolveTimes E c) = answer c \<and>
   checked (resolveTimes E c) = checked c \<and> reward (resolveTimes E c) = reward c \<and>
   issueTime (resolveTimes E c) = (if issueTime c = -1 then utcnow E else issueTime c) \<and>
   endTime (resolveTimes E c) =
     (if endTime c = -1
      then (if issueTime c = -1 then utcnow E else issueTime c) + 86400 * real (length (route c))
      else endTime c)"
  by (simp add: resolveTimes_def Let_def)

lemma resolveChecked_fields:
  "route (resolveChecked keep c) = route c \<and> answer (resolveChecked keep c) = answer c \<and>
   reward (resolveChecked keep c) = reward c \<and> issueTime (resolveChecked keep c) = issueTime c \<and>
   endTime (resolveChecked keep c) = endTime c \<and>
   checked (resolveChecked keep c) =
     fillChecked keep (route c) (if \<not> keep then Map.empty else checked c)"
  by (simp add: resolveChecked_def)

lemma generate_result:
  assumes "generate E owningDB noCriminal keep noDB c draws = Some (Inr (c', rest))"
  shows "generated c' \<and>
         (if route c = [] then \<exists>s e. bbAStar E s e = Inr (route c')
          else route c' = route c \<and> set (route c) \<subseteq> set (systemNames E)) \<and>
         (if answer c = '''' then answer c' \<in> set (route c')
          else answer c' = answer c \<and> answer c \<in> set (systemNames E)) \<and>
         (if reward c = -1
          then reward c' = py_int (real (length (route c')) * bPointsToCreditsRatio E)
          else reward c' = reward c \<and> 0 \<le> reward c) \<and>
         issueTime c' = (if issueTime c = -1 then utcnow E else issueTime c) \<and>
         endTime c' = (if endTime c = -1 then issueTime c' + 86400 * real (length (route c'))
                       else endTime c) \<and>
         checked c' = fillChecked keep (route c') (if \<not> keep then Map.empty else checked c)"
proof -
  from assms obtain c3 c4 where
    3: "resolveUpToAnswer E owningDB noCriminal noDB c draws = Some (Inr (c3, rest))"
    and 4: "resolveReward E c3 = Inr c4"
    and c': "c' = (resolveChecked keep (resolveTimes E c4))\<lparr>generated := True\<rparr>"
    by (rule generate_Inr)
  note r3 = resolveUpToAnswer_result[OF 3]
  note r4 = resolveReward_same[OF 4]
  have rw: "if reward c3 = -1
          then reward c4 = py_int (real (length (route c3)) * bPointsToCreditsRatio E)
          else reward c4 = reward c3 \<and> 0 \<le> reward c3"
    using 4 by (auto simp: resolveReward_def split: if_splits)
  have f: "route c' = route c4" "answer c' = answer c4" "reward c' = reward c4"
    "issueTime c' = (if issueTime c4 = -1 then utcnow E else issueTime c4)"
    "endTime c' = (if endTime c4 = -1
      then (if issueTime c4 = -1 then utcnow E else issueTime c4) + 86400 * real (length (route c4))
      else endTime c4)"
    "checked c' = fillChecked keep (route c4) (if \<not> keep then Map.empty else checked c4)"
    unfolding c' by (simp_all add: resolveChecked_fields resolveTimes_fields)
  have g: "generated c'" unfolding c' by simp
  show ?thesis
    unfolding f using g r3 r4 rw by (auto split: if_splits)
qed

lemma py_int_nonneg: "0 \<le> x \<Longrightarrow> 0 \<le> py_int x"
  by (simp add: py_int_def)

lemma py_int_floor: "0 \<le> x \<Longrightarrow> py_int x = \<lfloor>x\<rfloor>"
  by (simp add: py_int_def)

lemma generate_keys:
  assumes "generate E owningDB noCriminal keep noDB c draws = Some (Inr (c', rest))"
  shows "set (route c') \<subseteq> dom (checked c')"
  using generate_result[OF assms] by (simp add: dom_fillChecked)

lemma generate_raises_on_negative:
  assumes neg: "reward c < 0" and sentinel: "reward c \<noteq> -1"
    and up: "resolveUpToAnswer E owningDB noCriminal noDB c draws = Some (Inr (c3, rest))"
  shows "generate E owningDB noCriminal keep noDB c draws = Some (Inl ValueError)"
proof -
  from resolveUpToAnswer_result[OF up] have "reward c3 = reward c" by simp
  with neg sentinel have "resolveReward E c3 = Inl ValueError"
    by (simp add: resolveReward_def)
  with up show ?thesis by (simp add: generate_def bindR_def)
qed

lemma generate_never_negative:
  assumes neg: "reward c < 0" and sentinel: "reward c \<noteq> -1"
  shows "generate E owningDB noCriminal keep noDB c draws \<noteq> Some (Inr (c', rest))"
proof
  assume "generate E owningDB noCriminal keep noDB c draws = Some (Inr (c', rest))"
  from generate_result[OF this] neg sentinel show False by (auto split: if_splits)
qed

subsection \<open>The example configurations\<close>

lemma strayConfig_eq:
  "strayConfig = \<lparr>faction = '''', route = [''A'', ''B''], answer = ''C'', checked = [''Z'' \<mapsto> 7],
     reward = 5, issueTime = 10, endTime = 5, name = '''', isPlayer = False, start = '''',
     endSys = '''', icon = '''', generated = False, builtIn = False, aliases = [], wiki = ''''\<rparr>"
  by (simp add: strayConfig_def BountyConfig_init_def defaultArgs_def string_simps)

lemma exampleConfig_eq:
  "exampleConfig = \<lparr>faction = '''', route = [''A'', ''B'', ''C'', ''D''], answer = ''C'',
     checked = [''A'' \<mapsto> 101], reward = 40, issueTime = 0, endTime = 345600, name = '''',
     isPlayer = False, start = '''', endSys = '''', icon = '''', generated = False,
     builtIn = False, aliases = [], wiki = ''''\<rparr>"
  by (simp add: exampleConfig_def BountyConfig_init_def defaultArgs_def string_simps)

lemma defaultConfig_eq:
  "BountyConfig_init defaultArgs = \<lparr>faction = '''', route = [], answer = '''',
     checked = Map.empty, reward = -1, issueTime = -1, endTime = -1, name = '''',
     isPlayer = False, start = '''', endSys = '''', icon = '''', generated = False,
     builtIn = False, aliases = [], wiki = ''''\<rparr>"
  by (simp add: BountyConfig_init_def defaultArgs_def string_simps)

lemma minusOneConfig_eq:
  "minusOneConfig = \<lparr>faction = '''', route = [''A'', ''B''], answer = ''A'', checked = Map.empty,
     reward = -1, issueTime = -1, endTime = -1, name = '''', isPlayer = False, start = '''',
     endSys = '''', icon = '''', generated = False, builtIn = False, aliases = [], wiki = ''''\<rparr>"
  by (simp add: minusOneConfig_def BountyConfig_init_def defaultArgs_def string_simps)

lemma negativeConfig_eq:
  "negativeConfig = \<lparr>faction = '''', route = [''A'', ''B''], answer = ''A'', checked = Map.empty,
     reward = -5, issueTime = -1, endTime = -1, name = '''', isPlayer = False, start = '''',
     endSys = '''', icon = '''', generated = False, builtIn = False, aliases = [], wiki = ''''\<rparr>"
  by (simp add: negativeConfig_def BountyConfig_init_def defaultArgs_def string_simps)

lemma halfConfig_eq:
  "halfConfig = \<lparr>faction = '''', route = [''A'', ''B''], answer = ''A'', checked = Map.empty,
     reward = 0, issueTime = -1, endTime = -1, name = '''', isPlayer = False, start = '''',
     endSys = '''', icon = '''', generated = False, builtIn = False, aliases = [], wiki = ''''\<rparr>"
  by (simp add: halfConfig_def BountyConfig_init_def defaultArgs_def string_simps py_int_def
      ceiling_def)

lemma generate_default:
  "generate exampleEnv (Some exampleDB) True False False (BountyConfig_init defaultArgs)
     [0, 0, 0, 1, 1] =
   Some (Inr (\<lparr>faction = ''terran'', route = [''A'', ''B''], answer = ''B'',
     checked = [''A'' \<mapsto> -1, ''B'' \<mapsto> -1], reward = 2000, issueTime = 1600000000,
     endTime = 1600172800, name = ''Ganar Gray'', isPlayer = False, start = ''A'',
     endSys = ''B'', icon = '''', generated = True, builtIn = True, aliases = [],
     wiki = ''''\<rparr>, []))"
  by (simp add: defaultConfig_eq generate_simps exampleEnv_def exampleDB_def Let_def py_int_def)

lemma generate_example_reload:
  "generate exampleEnv None False True True exampleConfig [] =
   Some (Inr (exampleConfig\<lparr>checked := [''A'' \<mapsto> 101, ''B'' \<mapsto> -1, ''C'' \<mapsto> -1, ''D'' \<mapsto> -1],
                generated := True\<rparr>, []))"
  by (simp add: exampleConfig_eq generate_simps exampleEnv_def Let_def)

lemma generate_minusOne:
  "generate exampleEnv (Some exampleDB) True False False minusOneConfig [0, 0]
     = Some (Inr (minusOneGenerated, []))"
  by (simp add: minusOneGenerated_def minusOneConfig_eq generate_simps exampleEnv_def
      exampleDB_def Let_def py_int_def)

lemma generate_half:
  "generate exampleEnv (Some exampleDB) True False False halfConfig [0, 0]
     = Some (Inr (halfGenerated, []))"
  by (simp add: halfGenerated_def halfConfig_eq generate_simps exampleEnv_def exampleDB_def
      Let_def py_int_def)

lemma upToAnswer_negative:
  "resolveUpToAnswer exampleEnv (Some exampleDB) True False negativeConfig [0, 0] =
   Some (Inr (negativeConfig\<lparr>faction := ''terran'', name := ''Ganar Gray'', builtIn := True\<rparr>, []))"
  by (simp add: negativeConfig_eq generate_simps exampleEnv_def exampleDB_def Let_def)

lemma stray_keys:
  "dom [''Z'' \<mapsto> 7::int, ''A'' \<mapsto> -1, ''B'' \<mapsto> -1] \<noteq> set [''A'', ''B'']"
proof
  assume "dom [''Z'' \<mapsto> 7::int, ''A'' \<mapsto> -1, ''B'' \<mapsto> -1] = set [''A'', ''B'']"
  moreover have "''Z'' \<in> dom [''Z'' \<mapsto> 7::int, ''A'' \<mapsto> -1, ''B'' \<mapsto> -1]" by simp
  ultimately have "''Z'' \<in> set [''A'', ''B'']" by (rule subst)
  then show False by simp
qed

lemma generate_strayReloaded:
  "generate exampleEnv None False True True strayConfig [] = Some (Inr (strayReloaded, []))"
  by (simp add: strayReloaded_def strayConfig_eq generate_simps exampleEnv_def Let_def)

lemma generate_strayFresh:
  "generate exampleEnv (Some exampleDB) True False False strayConfig [0, 0]
     = Some (Inr (strayFresh, []))"
  by (simp add: strayFresh_def strayConfig_eq generate_simps exampleEnv_def exampleDB_def Let_def)

section \<open>The claims about generation\<close>

text \<open>
  Claim C6, as amended. After a successful \<^verbatim>\<open>generate\<close>: every route system is a key
  of the checked-map; the keys are exactly the route systems when
  \<^verbatim>\<open>forceKeepChecked\<close> is false, and the keys of the given map together with the route
  systems when it is true; the reward is not negative (for a ratio of credits that is
  not negative); the answer is on the route when none was given, and is the given answer,
  a system of the catalogue, otherwise; the end time is later than the issue time when
  no end time was given and the route is not empty; a given end time and a given issue
  time are kept.
\<close>

theorem generate_establishes:
  assumes "generate E owningDB noCriminal forceKeepChecked forceNoDBCheck c draws
             = Some (Inr (c', rest))"
    and "0 \<le> bPointsToCreditsRatio E"
  shows "set (route c') \<subseteq> dom (checked c')
       \<and> (\<not> forceKeepChecked \<longrightarrow> dom (checked c') = set (route c'))
       \<and> (forceKeepChecked \<longrightarrow> dom (checked c') = dom (checked c) \<union> set (route c'))
       \<and> 0 \<le> reward c'
       \<and> (answer c = '''' \<longrightarrow> answer c' \<in> set (route c'))
       \<and> (answer c \<noteq> '''' \<longrightarrow> answer c' = answer c \<and> answer c' \<in> set (systemNames E))
       \<and> (endTime c = -1 \<and> route c' \<noteq> [] \<longrightarrow> issueTime c' < endTime c')
       \<and> (endTime c \<noteq> -1 \<longrightarrow> endTime c' = endTime c)
       \<and> (issueTime c \<noteq> -1 \<longrightarrow> issueTime c' = issueTime c)"
proof -
  note r = generate_result[OF assms(1)]
  have d: "dom (checked c') =
      dom (if \<not> forceKeepChecked then Map.empty else checked c) \<union> set (route c')"
    using r by (simp add: dom_fillChecked)
  have rw: "0 \<le> reward c'"
    using r assms(2) by (auto simp: py_int_nonneg split: if_splits)
  have t: "endTime c = -1 \<and> route c' \<noteq> [] \<longrightarrow> issueTime c' < endTime c'"
    using r by auto
  from r d rw t show ?thesis by (auto split: if_splits)
qed

theorem generate_establishes_witness:
  "generate exampleEnv (Some exampleDB) True False False (BountyConfig_init defaultArgs)
       [0, 0, 0, 1, 1]
     = Some (Inr (\<lparr>faction = ''terran'', route = [''A'', ''B''], answer = ''B'',
         checked = [''A'' \<mapsto> -1, ''B'' \<mapsto> -1], reward = 2000, issueTime = 1600000000,
         endTime = 1600172800, name = ''Ganar Gray'', isPlayer = False, start = ''A'',
         endSys = ''B'', icon = '''', generated = True, builtIn = True, aliases = [],
         wiki = ''''\<rparr>, []))
   \<and> 0 \<le> bPointsToCreditsRatio exampleEnv
   \<and> (dom [''A'' \<mapsto> -1::int, ''B'' \<mapsto> -1] = set [''A'', ''B'']
       \<and> ''B'' \<in> set [''A'', ''B''] \<and> (1600000000::real) < 1600172800)
   \<and> generate exampleEnv None False True True exampleConfig []
     = Some (Inr (exampleConfig\<lparr>checked := [''A'' \<mapsto> 101, ''B'' \<mapsto> -1, ''C'' \<mapsto> -1, ''D'' \<mapsto> -1],
                    generated := True\<rparr>, []))
   \<and> (dom [''A'' \<mapsto> 101::int, ''B'' \<mapsto> -1, ''C'' \<mapsto> -1, ''D'' \<mapsto> -1]
         = dom (checked exampleConfig) \<union> set (route exampleConfig)
       \<and> answer exampleConfig \<in> set (systemNames exampleEnv)
       \<and> 0 \<le> reward exampleConfig)"
proof -
  have r: "0 \<le> bPointsToCreditsRatio exampleEnv" by (simp add: exampleEnv_def)
  have a: "answer (BountyConfig_init defaultArgs) = ''''"
    and e: "endTime (BountyConfig_init defaultArgs) = -1"
    by (simp_all add: defaultConfig_eq)
  have a2: "answer exampleConfig \<noteq> ''''" by (simp add: exampleConfig_eq)
  note g1 = generate_establishes[OF generate_default r, simplified select_convs]
  from g1 a e
  have 1: "dom [''A'' \<mapsto> -1::int, ''B'' \<mapsto> -1] = set [''A'', ''B'']
     \<and> ''B'' \<in> set [''A'', ''B''] \<and> (1600000000::real) < 1600172800"
    by simp
  note g2 = generate_establishes[OF generate_example_reload r, simplified select_convs]
  from g2 a2
  have 2: "dom [''A'' \<mapsto> 101::int, ''B'' \<mapsto> -1, ''C'' \<mapsto> -1, ''D'' \<mapsto> -1]
       = dom (checked exampleConfig) \<union> set (route exampleConfig)
     \<and> answer exampleConfig \<in> set (systemNames exampleEnv)
     \<and> 0 \<le> reward exampleConfig"
    by simp
  show ?thesis
    by (intro conjI generate_default generate_example_reload r 1 2)
qed

text \<open>
  Claim C6 as stated fails for the configuration with route A, B, the answer C, the
  checked-map Z: 7, issue time 10 and end time 5. On the reload path
  (\<^verbatim>\<open>forceKeepChecked\<close> and \<^verbatim>\<open>forceNoDBCheck\<close>) generation succeeds with an answer
  that is not on the route, the key Z that is not on the route, and an end time before
  the issue time; on the path of a new bounty it succeeds with the answer off the route
  and the end time before the issue time.
\<close>

theorem generate_breaks_invariants:
  "generate exampleEnv None False True True strayConfig [] = Some (Inr (strayReloaded, []))
   \<and> answer strayReloaded \<notin> set (route strayReloaded)
   \<and> dom (checked strayReloaded) \<noteq> set (route strayReloaded)
   \<and> endTime strayReloaded < issueTime strayReloaded
   \<and> generate exampleEnv (Some exampleDB) True False False strayConfig [0, 0]
       = Some (Inr (strayFresh, []))
   \<and> answer strayFresh \<notin> set (route strayFresh)
   \<and> endTime strayFresh < issueTime strayFresh"
proof -
  have 1: "answer strayReloaded \<notin> set (route strayReloaded)"
    and 2: "endTime strayReloaded < issueTime strayReloaded"
    and 3: "answer strayFresh \<notin> set (route strayFresh)"
    and 4: "endTime strayFresh < issueTime strayFresh"
    by (simp_all add: strayReloaded_def strayFresh_def strayConfig_eq)
  have 5: "dom (checked strayReloaded) \<noteq> set (route strayReloaded)"
    using stray_keys by (simp add: strayReloaded_def strayConfig_eq)
  show ?thesis
    by (intro conjI generate_strayReloaded generate_strayFresh 1 2 3 4 5)
qed

text \<open>
  Claim C8, as amended. A configuration whose reward (an \<^verbatim>\<open>int\<close> as given, a
  \<^verbatim>\<open>float\<close> truncated towards zero by the constructor) is negative and not \<open>-1\<close> is
  never generated successfully, and \<^verbatim>\<open>generate\<close> raises \<^verbatim>\<open>ValueError\<close> as soon as
  the steps before the reward have passed. A reward of \<open>-1\<close>, which is also what the
  constructor stores when no reward is given, is replaced by
  \<open>floor (length route * ratio)\<close> (for a ratio that is not negative).
\<close>

theorem generate_rejects_negative_reward:
  "(reward c < 0 \<and> reward c \<noteq> -1 \<longrightarrow>
      (\<forall>c' rest. generate E owningDB noCriminal keep noDB c draws \<noteq> Some (Inr (c', rest))) \<and>
      (\<forall>c3 rest. resolveUpToAnswer E owningDB noCriminal noDB c draws = Some (Inr (c3, rest)) \<longrightarrow>
         generate E owningDB noCriminal keep noDB c draws = Some (Inl ValueError)))
   \<and> (\<forall>c' rest. reward c = -1 \<and> 0 \<le> bPointsToCreditsRatio E \<and>
         generate E owningDB noCriminal keep noDB c draws = Some (Inr (c', rest)) \<longrightarrow>
         reward c' = \<lfloor>real (length (route c')) * bPointsToCreditsRatio E\<rfloor>)
   \<and> reward (BountyConfig_init a) =
        (case arg_reward a of IntReward r \<Rightarrow> r | FloatReward x \<Rightarrow> py_int x)
   \<and> reward (BountyConfig_init defaultArgs) = -1"
proof (intro conjI impI allI)
  fix c' rest
  assume "reward c < 0 \<and> reward c \<noteq> -1"
  then show "generate E owningDB noCriminal keep noDB c draws \<noteq> Some (Inr (c', rest))"
    using generate_never_negative by blast
next
  fix c3 rest
  assume "reward c < 0 \<and> reward c \<noteq> -1"
    and "resolveUpToAnswer E owningDB noCriminal noDB c draws = Some (Inr (c3, rest))"
  then show "generate E owningDB noCriminal keep noDB c draws = Some (Inl ValueError)"
    using generate_raises_on_negative by blast
next
  fix c' rest
  assume a: "reward c = -1 \<and> 0 \<le> bPointsToCreditsRatio E \<and>
         generate E owningDB noCriminal keep noDB c draws = Some (Inr (c', rest))"
  then have "generate E owningDB noCriminal keep noDB c draws = Some (Inr (c', rest))"
    by simp
  from generate_result[OF this] a
  have "reward c' = py_int (real (length (route c')) * bPointsToCreditsRatio E)" by simp
  moreover have "0 \<le> real (length (route c')) * bPointsToCreditsRatio E" using a by simp
  ultimately show "reward c' = \<lfloor>real (length (route c')) * bPointsToCreditsRatio E\<rfloor>"
    by (simp add: py_int_floor)
next
  show "reward (BountyConfig_init a) =
        (case arg_reward a of IntReward r \<Rightarrow> r | FloatReward x \<Rightarrow> py_int x)"
    by (simp add: BountyConfig_init_def)
next
  show "reward (BountyConfig_init defaultArgs) = -1"
    by (simp add: BountyConfig_init_def defaultArgs_def)
qed

theorem generate_rejects_negative_reward_witness:
  "(reward negativeConfig < 0 \<and> reward negativeConfig \<noteq> -1)
   \<and> resolveUpToAnswer exampleEnv (Some exampleDB) True False negativeConfig [0, 0] =
       Some (Inr (negativeConfig\<lparr>faction := ''terran'', name := ''Ganar Gray'', builtIn := True\<rparr>, []))
   \<and> generate exampleEnv (Some exampleDB) True False False negativeConfig [0, 0]
       = Some (Inl ValueError)
   \<and> (reward minusOneConfig = -1 \<and> 0 \<le> bPointsToCreditsRatio exampleEnv)
   \<and> generate exampleEnv (Some exampleDB) True False False minusOneConfig [0, 0]
       = Some (Inr (minusOneGenerated, []))
   \<and> reward minusOneGenerated
       = \<lfloor>real (length (route minusOneGenerated)) * bPointsToCreditsRatio exampleEnv\<rfloor>
   \<and> reward minusOneGenerated = 2000"
proof -
  have n: "reward negativeConfig < 0 \<and> reward negativeConfig \<noteq> -1"
    by (simp add: negativeConfig_eq)
  have m: "reward minusOneConfig = -1 \<and> 0 \<le> bPointsToCreditsRatio exampleEnv"
    by (simp add: minusOneConfig_eq exampleEnv_def)
  note t1 = generate_rejects_negative_reward[where c = negativeConfig and E = exampleEnv
      and owningDB = "Some exampleDB" and noCriminal = True and keep = False and noDB = False
      and draws = "[0, 0]"]
  from t1 n upToAnswer_negative
  have 1: "generate exampleEnv (Some exampleDB) True False False negativeConfig [0, 0]
       = Some (Inl ValueError)"
    by blast
  note t2 = generate_rejects_negative_reward[where c = minusOneConfig and E = exampleEnv
      and owningDB = "Some exampleDB" and noCriminal = True and keep = False and noDB = False
      and draws = "[0, 0]"]
  from t2 m generate_minusOne
  have 2: "reward minusOneGenerated
       = \<lfloor>real (length (route minusOneGenerated)) * bPointsToCreditsRatio exampleEnv\<rfloor>"
    by blast
  have 3: "reward minusOneGenerated = 2000" by (simp add: minusOneGenerated_def)
  show ?thesis
    by (intro conjI n[THEN conjunct1] n[THEN conjunct2] m[THEN conjunct1] m[THEN conjunct2]
        upToAnswer_negative 1 generate_minusOne 2 3)
qed

text \<open>
  Claim C8 as stated fails for the explicit reward \<open>-1\<close>, which \<^verbatim>\<open>generate\<close>
  replaces by the default 2000 without an error, and for the explicit reward
  \<open>-0.5\<close>, which the constructor turns into 0.
\<close>

theorem generate_replaces_negative_reward:
  "arg_reward (defaultArgs\<lparr>arg_route := [''A'', ''B''], arg_answer := ''A'',
                           arg_reward := IntReward (-1)\<rparr>) = IntReward (-1)
   \<and> reward minusOneConfig = -1
   \<and> generate exampleEnv (Some exampleDB) True False False minusOneConfig [0, 0]
       = Some (Inr (minusOneGenerated, []))
   \<and> reward minusOneGenerated = 2000
   \<and> arg_reward (defaultArgs\<lparr>arg_route := [''A'', ''B''], arg_answer := ''A'',
                           arg_reward := FloatReward (- 1 / 2)\<rparr>) = FloatReward (- 1 / 2)
   \<and> reward halfConfig = 0
   \<and> generate exampleEnv (Some exampleDB) True False False halfConfig [0, 0]
       = Some (Inr (halfGenerated, []))
   \<and> reward halfGenerated = 0"
proof -
  have 1: "arg_reward (defaultArgs\<lparr>arg_route := [''A'', ''B''], arg_answer := ''A'',
                           arg_reward := IntReward (-1)\<rparr>) = IntReward (-1)"
    and 2: "reward minusOneConfig = -1"
    and 3: "reward minusOneGenerated = 2000"
    and 4: "arg_reward (defaultArgs\<lparr>arg_route := [''A'', ''B''], arg_answer := ''A'',
                           arg_reward := FloatReward (- 1 / 2)\<rparr>) = FloatReward (- 1 / 2)"
    and 5: "reward halfConfig = 0"
    and 6: "reward halfGenerated = 0"
    by (simp_all add: minusOneConfig_eq minusOneGenerated_def halfConfig_eq halfGenerated_def)
  show ?thesis
    by (intro conjI generate_minusOne generate_half 1 2 3 4 5 6)
qed


section \<open>Reloading a bounty from its dictionary\<close>



lemma Bounty_init_generated:
  assumes "generated c'"
    and "Bounty_init E criminalArg (Some c') owningDB dbReload draws = Some (Inr (b, rest))"
  shows "sameCore c' b \<and> respawnTT b = None \<and> rest = draws"
  using assms
  by (auto simp: Bounty_init_def bindR_def sameCore_def Let_def
      split: if_splits sum.splits option.splits)


lemma check_sameCore:
  assumes "check b system userID = Inr (r, b')"
  shows "route b' = route b \<and> answer b' = answer b \<and> reward b' = reward b \<and>
         issueTime b' = issueTime b \<and> endTime b' = endTime b \<and>
         dom (checked b) \<subseteq> dom (checked b') \<and> criminalObj b' = criminalObj b"
  using assms
  by (auto simp: check_def systemChecked_def Let_def split: if_splits option.splits bool.splits)

lemma checks_keys:
  assumes "set (route b) \<subseteq> dom (checked b)"
  shows "route (checks b calls) = route b \<and>
         set (route b) \<subseteq> dom (checked (checks b calls))"
  using assms
proof (induction calls arbitrary: b)
  case Nil
  then show ?case by simp
next
  case (Cons call calls)
  obtain system userID where call: "call = (system, userID)" by (cases call)
  show ?case
  proof (cases "check b system userID")
    case (Inl e)
    with call Cons.IH[OF Cons.prems] show ?thesis by simp
  next
    case (Inr p)
    obtain r b' where p: "p = (r, b')" by (cases p)
    from check_sameCore[of b system userID r b'] Inr p Cons.prems
    have rb: "route b' = route b" and "set (route b') \<subseteq> dom (checked b')" by auto
    from Cons.IH[OF this(2)] rb Inr p call show ?thesis by simp
  qed
qed













lemma generate_default_fresh:
  "generate exampleEnv (Some exampleDB) True False False (BountyConfig_init defaultArgs)
     [0, 0, 0, 1, 1] = Some (Inr (freshConfig, []))"
  unfolding freshConfig_def by (rule generate_default)




text \<open>
  Claim C10. After a successful \<^verbatim>\<open>generate\<close>, with or without
  \<^verbatim>\<open>forceKeepChecked\<close>, every route system is a key of the checked-map. Hence on a
  bounty with the route and the checked-map of the configuration, and after any sequence
  of \<^verbatim>\<open>check\<close> calls on it, \<^verbatim>\<open>check\<close> on any system, \<^verbatim>\<open>systemChecked\<close> on a
  route system and \<^verbatim>\<open>calcRewards\<close> all return; the constructor gives the bounty that
  route and that checked-map.
\<close>

theorem generate_checked_covers_route:
  assumes "generate E owningDB noCriminal forceKeepChecked forceNoDBCheck c draws
             = Some (Inr (c', rest))"
  shows "set (route c') \<subseteq> dom (checked c')
       \<and> (\<forall>b calls system userID. route b = route c' \<and> checked b = checked c' \<longrightarrow>
            (\<exists>r. check (checks b calls) system userID = Inr r) \<and>
            (system \<in> set (route c') \<longrightarrow> (\<exists>r. systemChecked (checks b calls) system = Inr r)) \<and>
            (\<exists>m. calcRewards (checks b calls) = Inr m))
       \<and> (\<forall>criminalArg db dbReload ds b ds'.
            Bounty_init E criminalArg (Some c') db dbReload ds = Some (Inr (b, ds')) \<longrightarrow>
            route b = route c' \<and> checked b = checked c')"
proof (intro conjI allI impI)
  show "set (route c') \<subseteq> dom (checked c')" by (rule generate_keys[OF assms])
next
  fix b :: bounty and calls system userID
  assume b: "route b = route c' \<and> checked b = checked c'"
  with generate_keys[OF assms] have "set (route b) \<subseteq> dom (checked b)" by simp
  from checks_keys[OF this, of calls]
  have rt: "route (checks b calls) = route c'"
    and k: "set (route (checks b calls)) \<subseteq> dom (checked (checks b calls))"
    using b by simp_all
  show "\<exists>r. check (checks b calls) system userID = Inr r"
    using check_result[OF k, of system userID] by (auto split: if_splits)
  show "\<exists>m. calcRewards (checks b calls) = Inr m"
    using calcRewards_rewardsOf[OF k] by blast
  assume "system \<in> set (route c')"
  with rt k have "system \<in> dom (checked (checks b calls))" by auto
  then show "\<exists>r. systemChecked (checks b calls) system = Inr r"
    by (auto simp: systemChecked_def)
next
  fix criminalArg db dbReload ds b ds'
  assume i: "Bounty_init E criminalArg (Some c') db dbReload ds = Some (Inr (b, ds'))"
  have "generated c'" using generate_result[OF assms] by simp
  from Bounty_init_generated[OF this i]
  show "route b = route c'" "checked b = checked c'"
    by (simp_all add: sameCore_def)
qed

theorem generate_checked_covers_route_witness:
  "generate exampleEnv (Some exampleDB) True False False (BountyConfig_init defaultArgs)
     [0, 0, 0, 1, 1] = Some (Inr (freshConfig, []))
   \<and> set (route freshConfig) \<subseteq> dom (checked freshConfig)
   \<and> (route freshBounty = route freshConfig \<and> checked freshBounty = checked freshConfig)
   \<and> (\<exists>r. check (checks freshBounty [(''A'', 101)]) ''B'' 202 = Inr r)
   \<and> ''B'' \<in> set (route freshConfig)
   \<and> (\<exists>r. systemChecked (checks freshBounty [(''A'', 101)]) ''B'' = Inr r)
   \<and> (\<exists>m. calcRewards (checks freshBounty [(''A'', 101)]) = Inr m)
   \<and> Bounty_init exampleEnv None (Some freshConfig) (Some exampleDB) False []
       = Some (Inr (freshBounty, []))"
proof -
  note t = generate_checked_covers_route[OF generate_default_fresh]
  have same: "route freshBounty = route freshConfig \<and> checked freshBounty = checked freshConfig"
    by (simp add: freshBounty_def freshConfig_def)
  have mem: "''B'' \<in> set (route freshConfig)" by (simp add: freshConfig_def)
  from t have 1: "set (route freshConfig) \<subseteq> dom (checked freshConfig)" by blast
  from t same have 2: "\<exists>r. check (checks freshBounty [(''A'', 101)]) ''B'' 202 = Inr r" by blast
  from t same mem have 3: "\<exists>r. systemChecked (checks freshBounty [(''A'', 101)]) ''B'' = Inr r"
    by blast
  from t same have 4: "\<exists>m. calcRewards (checks freshBounty [(''A'', 101)]) = Inr m" by blast
  have 5: "Bounty_init exampleEnv None (Some freshConfig) (Some exampleDB) False []
       = Some (Inr (freshBounty, []))"
    by (simp add: Bounty_init_def freshConfig_def freshBounty_def bindR_def exampleEnv_def
        exampleCriminal_def)
  show ?thesis
    by (intro conjI generate_default_fresh 1 same[THEN conjunct1] same[THEN conjunct2] 2 mem 3 4 5)
qed



section \<open>A route that repeats the answer\<close>





section \<open>Reconstruction outside the reload path\<close>

text \<open>
  Without \<^verbatim>\<open>dbReload\<close>, \<^verbatim>\<open>fromDict\<close> is the path of a new bounty: it raises
  \<^verbatim>\<open>ValueError\<close> when no database is passed.
\<close>

theorem fromDict_default_raises:
  "fromDict E d None False draws = Some (Inl ValueError)"
  by (simp add: fromDict_def Bounty_init_def)

lemma fromDict_partial_no_reload:
  "fromDict exampleEnv partialDict (Some exampleDB) False [] = Some (Inr (freshBounty, []))"
  by (simp add: fromDict_def Bounty_init_def partialDict_def BountyConfig_init_def defaultArgs_def
      string_simps generate_simps exampleEnv_def exampleDB_def Let_def freshBounty_def
      exampleCriminal_def)

text \<open>
  Without \<^verbatim>\<open>dbReload\<close> and with a database, \<^verbatim>\<open>fromDict\<close> builds a blank
  checked-map: every route system is unchecked again, whatever the dictionary recorded.
\<close>

theorem fromDict_no_reload_resets:
  assumes "fromDict E d owningDB False draws = Some (Inr (b', rest))"
  shows "checked b' s = (if s \<in> set (route b') then Some (-1) else None)"
proof -
  define newCfg where "newCfg = BountyConfig_init
           (defaultArgs\<lparr>arg_faction := faction d, arg_route := route d,
                        arg_answer := answer d, arg_checked := checked d,
                        arg_reward := IntReward (reward d),
                        arg_issueTime := issueTime d, arg_endTime := endTime d\<rparr>)"
  have ng: "\<not> generated newCfg"
    by (simp add: newCfg_def BountyConfig_init_def)
  from assms have "Bounty_init E (Some (criminalDict d)) (Some newCfg) owningDB False draws
      = Some (Inr (b', rest))"
    by (simp add: fromDict_def newCfg_def Let_def)
  with ng obtain cfg rest1 where
    g: "generate E owningDB False False False newCfg draws = Some (Inr (cfg, rest1))"
    and b': "route b' = route cfg" "checked b' = checked cfg"
    by (auto simp: Bounty_init_def bindR_Inr_iff split: if_splits)
  from generate_result[OF g] have "checked cfg = fillChecked False (route cfg) Map.empty"
    by simp
  with b' show ?thesis by (simp add: fillChecked_apply)
qed

theorem fromDict_no_reload_resets_witness:
  "fromDict exampleEnv partialDict (Some exampleDB) False [] = Some (Inr (freshBounty, []))
   \<and> checked partialDict ''A'' = Some 101
   \<and> checked freshBounty ''A'' = Some (-1)"
proof -
  have "checked freshBounty ''A'' = (if ''A'' \<in> set (route freshBounty) then Some (-1) else None)"
    by (rule fromDict_no_reload_resets[OF fromDict_partial_no_reload])
  then have 1: "checked freshBounty ''A'' = Some (-1)" by (simp add: freshBounty_def)
  have 2: "checked partialDict ''A'' = Some 101" by (simp add: partialDict_def)
  show ?thesis by (intro conjI fromDict_partial_no_reload 1 2)
qed

end
